theory Spec2Isabelle
  imports Complex_Main
begin

section \<open>Numbers: C++ \<open>double\<close>\<close>

text \<open>
  A \<open>double\<close> is modelled as a real number or the value \<open>NaN\<close>. On numbers the arithmetic
  of the model is exact: the rounding, the overflow, the underflow and the infinities of
  IEEE-754 are not modelled. \<open>NaN\<close> is produced by \<open>0/0\<close>, by \<open>acos\<close> outside \<open>[-1, 1]\<close> and by
  \<open>sqrt\<close> of a negative number, and is absorbed by every operation; a comparison with \<open>NaN\<close>
  is false.

  The model and the compiled code agree on two kinds of facts, and the statements below
  about the solver are of these kinds only.
  \<^item> Evaluations at fixed small integer coordinates, where every sum, difference and
    product of the code is exact (\<open>cos\<close>, \<open>sin\<close>, \<open>acos\<close> and \<open>sqrt\<close> are rounded by the
    code, within the tolerance of the spec).
  \<^item> The production and the propagation of \<open>NaN\<close>: in IEEE-754 as here, \<open>a - a\<close>, a
    product with a factor 0, and the sums, differences and square roots of such values
    are 0 or \<open>NaN\<close> (also when an operand is infinite: \<open>\<infinity> - \<infinity>\<close> and \<open>0 * \<infinity>\<close> are \<open>NaN\<close>), and a
    quotient of two such values is \<open>NaN\<close>.

  No statement below derives the norm of a quaternion from the exact arithmetic at
  inputs that are not fixed: in the code the quotient passed to \<open>acos\<close> can be rounded
  above 1, and squared norms can overflow or underflow.

  The quotient of a non-zero number by zero is infinite in IEEE-754; \<open>ddiv\<close> yields \<open>NaN\<close>
  there. No statement below evaluates such a quotient: where a divisor is 0, the dividend
  is 0 or \<open>NaN\<close>.
\<close>

datatype double = Val real | NaN

fun lift1 :: "(real \<Rightarrow> real) \<Rightarrow> double \<Rightarrow> double" where
  "lift1 f (Val x) = Val (f x)"
| "lift1 f NaN = NaN"

fun lift2 :: "(real \<Rightarrow> real \<Rightarrow> real) \<Rightarrow> double \<Rightarrow> double \<Rightarrow> double" where
  "lift2 f (Val x) (Val y) = Val (f x y)"
| "lift2 f _ _ = NaN"

definition dadd :: "double \<Rightarrow> double \<Rightarrow> double" where
  "dadd = lift2 (+)"

definition dsub :: "double \<Rightarrow> double \<Rightarrow> double" where
  "dsub = lift2 (-)"

definition dmul :: "double \<Rightarrow> double \<Rightarrow> double" where
  "dmul = lift2 (*)"

fun ddiv :: "double \<Rightarrow> double \<Rightarrow> double" where
  "ddiv (Val x) (Val y) = (if y = 0 then NaN else Val (x / y))"
| "ddiv _ _ = NaN"

fun dsqrt :: "double \<Rightarrow> double" where
  "dsqrt (Val x) = (if x < 0 then NaN else Val (sqrt x))"
| "dsqrt NaN = NaN"

definition dcos :: "double \<Rightarrow> double" where
  "dcos = lift1 cos"

definition dsin :: "double \<Rightarrow> double" where
  "dsin = lift1 sin"

fun dacos :: "double \<Rightarrow> double" where
  "dacos (Val x) = (if x < - 1 \<or> 1 < x then NaN else Val (arccos x))"
| "dacos NaN = NaN"

fun dgreater :: "double \<Rightarrow> double \<Rightarrow> bool" where
  "dgreater (Val x) (Val y) = (y < x)"
| "dgreater _ _ = False"

section \<open>Eigen: \<open>Vector3d\<close> and \<open>Quaterniond\<close>\<close>

text \<open>
  The operations of the Eigen library that \<open>Subtask.cpp\<close> calls, each written as Eigen 3.3
  computes it. \<open>normalized\<close> returns its argument unchanged unless the squared norm is
  greater than zero. \<open>transformVector\<close> is the product of a quaternion with a vector
  (\<open>q * v\<close>): \<open>uv = q.vec().cross(v); uv += uv; return v + q.w() * uv + q.vec().cross(uv)\<close>.
  The constructor \<open>Quaterniond(w, x, y, z)\<close> stores its four arguments as they are.
\<close>

datatype Vector3d = Vector3d (x: double) (y: double) (z: double)

datatype Quaterniond = Quaterniond (w: double) (vec: Vector3d)

definition vsub :: "Vector3d \<Rightarrow> Vector3d \<Rightarrow> Vector3d" where
  "vsub a b = Vector3d (dsub (x a) (x b)) (dsub (y a) (y b)) (dsub (z a) (z b))"

definition vadd :: "Vector3d \<Rightarrow> Vector3d \<Rightarrow> Vector3d" where
  "vadd a b = Vector3d (dadd (x a) (x b)) (dadd (y a) (y b)) (dadd (z a) (z b))"

definition vscale :: "double \<Rightarrow> Vector3d \<Rightarrow> Vector3d" where
  "vscale s a = Vector3d (dmul s (x a)) (dmul s (y a)) (dmul s (z a))"

definition vdivide :: "Vector3d \<Rightarrow> double \<Rightarrow> Vector3d" where
  "vdivide a s = Vector3d (ddiv (x a) s) (ddiv (y a) s) (ddiv (z a) s)"

definition cross :: "Vector3d \<Rightarrow> Vector3d \<Rightarrow> Vector3d" where
  "cross a b = Vector3d (dsub (dmul (y a) (z b)) (dmul (z a) (y b)))
                        (dsub (dmul (z a) (x b)) (dmul (x a) (z b)))
                        (dsub (dmul (x a) (y b)) (dmul (y a) (x b)))"

definition dot :: "Vector3d \<Rightarrow> Vector3d \<Rightarrow> double" where
  "dot a b = dadd (dadd (dmul (x a) (x b)) (dmul (y a) (y b))) (dmul (z a) (z b))"

definition squaredNorm :: "Vector3d \<Rightarrow> double" where
  "squaredNorm a = dot a a"

definition norm_v :: "Vector3d \<Rightarrow> double" where
  "norm_v a = dsqrt (squaredNorm a)"

definition normalized :: "Vector3d \<Rightarrow> Vector3d" where
  "normalized n = (let z = squaredNorm n in
     if dgreater z (Val 0) then vdivide n (dsqrt z) else n)"

definition transformVector :: "Quaterniond \<Rightarrow> Vector3d \<Rightarrow> Vector3d" where
  "transformVector q v = (let uv = cross (vec q) v; uv = vadd uv uv in
     vadd (vadd v (vscale (w q) uv)) (cross (vec q) uv))"

definition norm_q :: "Quaterniond \<Rightarrow> double" where
  "norm_q q = dsqrt (dadd (dmul (w q) (w q)) (squaredNorm (vec q)))"

section \<open>The orientation solver\<close>

text \<open>
  \<open>Subtask::rotateVectorInPlan_\<close> (Subtask.cpp, lines 94 to 118). Isabelle names cannot end
  in an underscore, so the members of \<open>Subtask\<close> are written without it. \<open>rotatedVectPlan\<close>
  is the first half of the function, up to the local of that name (called \<open>rotated\<close> in
  the second half); \<open>rotateVectorInPlan\<close> is the whole function. It has no failure path: it
  returns a quaternion for every input.
\<close>

type_synonym pointsArray = "Vector3d \<times> Vector3d \<times> Vector3d"

definition rotatedVectPlan :: "pointsArray \<Rightarrow> double \<Rightarrow> Vector3d" where
  "rotatedVectPlan pointsArray theta = (case pointsArray of (p0, p1, p2) \<Rightarrow>
     let planVector1 = vsub p0 p1;
         planVector2 = vsub p0 p2;
         normalVector = normalized (cross planVector1 planVector2);
         quatRotation = Quaterniond (dcos (ddiv theta (Val 2)))
                          (Vector3d (dmul (x normalVector) (dsin (ddiv theta (Val 2))))
                                    (dmul (y normalVector) (dsin (ddiv theta (Val 2))))
                                    (dmul (z normalVector) (dsin (ddiv theta (Val 2)))))
     in transformVector quatRotation planVector1)"

definition rotateVectorInPlan :: "pointsArray \<Rightarrow> Vector3d \<Rightarrow> double \<Rightarrow> Quaterniond" where
  "rotateVectorInPlan pointsArray refVector theta =
    (let rotated = rotatedVectPlan pointsArray theta;
         axisFinalRot = normalized (cross refVector rotated);
         angleFinalRot = dacos (ddiv (dot refVector rotated)
                                     (dmul (norm_v refVector) (norm_v rotated)))
     in Quaterniond (dcos (ddiv angleFinalRot (Val 2)))
          (Vector3d (dmul (x axisFinalRot) (dsin (ddiv angleFinalRot (Val 2))))
                    (dmul (y axisFinalRot) (dsin (ddiv angleFinalRot (Val 2))))
                    (dmul (z axisFinalRot) (dsin (ddiv angleFinalRot (Val 2))))))"

section \<open>The queue of regions of interest\<close>

text \<open>
  \<open>struct ROI\<close> and the members of \<open>Subtask\<close> are declared in \<open>Subtask.h\<close>; the fields are
  the ones \<open>Subtask.cpp\<close> reads and writes. The field \<open>id\<close> is written \<open>id_roi\<close> (\<open>id\<close> is
  the identity function of HOL). \<open>dequeROI\<close> is the \<open>std::deque\<close>, front first. \<open>rosout\<close>
  records what \<open>ROS_ERROR_STREAM\<close> and \<open>ROS_INFO_STREAM\<close> report. The debug publishers
  (\<open>publishWaypoint_\<close>, \<open>publishPose_\<close>) read the record and write no member of \<open>Subtask\<close>;
  they are left out.
\<close>

record ROI =
  id_roi :: string
  posStart :: Vector3d
  posEnd :: Vector3d
  quat :: Quaterniond

text \<open>
  Modelled from the spec: the value of \<open>ROI()\<close>, fixed by the declaration of \<open>struct ROI\<close> in
  \<open>Subtask.h\<close>, which is not part of the sources. The spec calls it an all-default record
  with all-zero fields.
\<close>

definition ROI_default :: ROI where
  "ROI_default = \<lparr>id_roi = [], posStart = Vector3d (Val 0) (Val 0) (Val 0),
     posEnd = Vector3d (Val 0) (Val 0) (Val 0),
     quat = Quaterniond (Val 0) (Vector3d (Val 0) (Val 0) (Val 0))\<rparr>"

datatype ros_msg =
    ROS_ERROR_size string nat nat
  | ROS_INFO_registered string
  | ROS_INFO_received string

record Subtask =
  dequeROI :: "ROI list"
  robotPos :: Vector3d
  refVector :: Vector3d
  rosout :: "ros_msg list"

text \<open>
  What a call does: it returns, with the object in a new state; or an exception of
  \<open>std::stod\<close> leaves it, with the object in the state it had at the throw; or it reads a
  \<open>std::vector\<close> past its end, which is undefined behaviour.
\<close>

datatype error = invalid_argument | out_of_range

datatype outcome = Returned Subtask | Threw error Subtask | UndefinedBehaviour

definition clearROI :: "Subtask \<Rightarrow> Subtask" where
  "clearROI st = st\<lparr>dequeROI := []\<rparr>"

definition empty :: "Subtask \<Rightarrow> bool" where
  "empty st = (dequeROI st = [])"

definition getROI :: "Subtask \<Rightarrow> ROI \<times> Subtask" where
  "getROI st = (if \<not> empty st
     then (let roi = hd (dequeROI st) in (roi, st\<lparr>dequeROI := tl (dequeROI st)\<rparr>))
     else (ROI_default, st))"

primrec isIdStored_loop :: "ROI list \<Rightarrow> string \<Rightarrow> bool" where
  "isIdStored_loop [] ident = False"
| "isIdStored_loop (roi # rest) ident =
     (if id_roi roi = ident then True else isIdStored_loop rest ident)"

definition isIdStored :: "Subtask \<Rightarrow> string \<Rightarrow> bool" where
  "isIdStored st ident = isIdStored_loop (dequeROI st) ident"

text \<open>
  \<open>std::getline(ss, token, delimiter)\<close> on the rest of the stream: at the end of the
  stream it extracts nothing and fails; otherwise the token is what precedes the first
  delimiter (or the end), and the delimiter is consumed.
\<close>

fun getline :: "string \<Rightarrow> char \<Rightarrow> (string \<times> string) option" where
  "getline [] delimiter = None"
| "getline (c # cs) delimiter =
     Some (takeWhile (\<lambda>a. a \<noteq> delimiter) (c # cs),
           drop 1 (dropWhile (\<lambda>a. a \<noteq> delimiter) (c # cs)))"

text \<open>
  \<open>Subtask::splitString_\<close>: the loop over the tokens. \<open>std::stod\<close> is a parameter: it yields
  a \<open>double\<close> or throws. \<open>waypointID\<close> and \<open>waypointsPos\<close> are locals of the caller, passed by
  reference; the function returns their final values.
\<close>

function splitString_loop ::
  "(string \<Rightarrow> error + double) \<Rightarrow> string \<Rightarrow> char \<Rightarrow> bool \<Rightarrow> string \<Rightarrow> double list
     \<Rightarrow> error + (string \<times> double list)" where
  "splitString_loop stod ss delimiter idTaken waypointID waypointsPos =
     (case getline ss delimiter of
        None \<Rightarrow> Inr (waypointID, waypointsPos)
      | Some (token, ss') \<Rightarrow>
          if \<not> idTaken then splitString_loop stod ss' delimiter True token waypointsPos
          else (case stod token of
                  Inl e \<Rightarrow> Inl e
                | Inr d \<Rightarrow> splitString_loop stod ss' delimiter idTaken waypointID
                            (waypointsPos @ [d])))"
  by pat_completeness auto
termination
proof (relation "measure (\<lambda>(stod, ss, rest). length ss)")
qed (auto simp: less_Suc_eq_le elim!: getline.elims
       intro: le_trans [OF diff_le_self length_dropWhile_le])

definition splitString ::
  "(string \<Rightarrow> error + double) \<Rightarrow> string \<Rightarrow> char \<Rightarrow> string \<Rightarrow> double list
     \<Rightarrow> error + (string \<times> double list)" where
  "splitString stod str delimiter waypointID waypointsPos =
     splitString_loop stod str delimiter False waypointID waypointsPos"

text \<open>
  Modelled from the spec: the default value of the parameter \<open>theta\<close> of
  \<open>rotateVectorInPlan_\<close>, given in its declaration in \<open>Subtask.h\<close>, which is not part of the
  sources. The spec says that \<open>theta\<close> defaults to 0.
\<close>

definition theta_default :: double where
  "theta_default = Val 0"

text \<open>
  \<open>Subtask::parseROI_\<close>. The size test only reports; the function goes on. Reading
  \<open>waypointsPos[0]\<close> to \<open>waypointsPos[5]\<close> of a vector with fewer than six elements is
  undefined behaviour. \<open>rotateVectorInPlan_\<close> is called without \<open>theta\<close>.
\<close>

definition parseROI :: "(string \<Rightarrow> error + double) \<Rightarrow> Subtask \<Rightarrow> string \<Rightarrow> outcome" where
  "parseROI stod st str = (let MSG_SIZE = 7 in
     case splitString stod str (CHR '','') [] [] of
       Inl e \<Rightarrow> Threw e st
     | Inr (waypointID, waypointsPos) \<Rightarrow>
         let st1 = (if length waypointsPos \<noteq> MSG_SIZE
                    then st\<lparr>rosout := rosout st @
                           [ROS_ERROR_size str MSG_SIZE (length waypointsPos)]\<rparr>
                    else st)
         in if \<not> isIdStored st1 waypointID then
              if length waypointsPos < 6 then UndefinedBehaviour
              else
                let start = Vector3d (waypointsPos ! 0) (waypointsPos ! 1) (waypointsPos ! 2);
                    end = Vector3d (waypointsPos ! 3) (waypointsPos ! 4) (waypointsPos ! 5);
                    roi = \<lparr>id_roi = waypointID, posStart = start, posEnd = end,
                           quat = rotateVectorInPlan (start, end, robotPos st1)
                                    (refVector st1) theta_default\<rparr>
                in Returned (st1\<lparr>dequeROI := dequeROI st1 @ [roi],
                                 rosout := rosout st1 @ [ROS_INFO_registered waypointID]\<rparr>)
            else Returned (st1\<lparr>rosout := rosout st1 @ [ROS_INFO_received waypointID]\<rparr>))"

definition cbkROI :: "(string \<Rightarrow> error + double) \<Rightarrow> Subtask \<Rightarrow> string \<Rightarrow> outcome" where
  "cbkROI stod st msg = parseROI stod st msg"

section \<open>Notions used in the statements\<close>

text \<open>
  A \<open>double\<close> that is 0 or \<open>NaN\<close>, a vector of such values, and a quaternion whose norm is 1
  within the tolerance \<open>1e-9\<close> of the spec. A quaternion with a \<open>NaN\<close> component has the
  norm \<open>NaN\<close> and is not normalized.
\<close>

fun zero_or_NaN :: "double \<Rightarrow> bool" where
  "zero_or_NaN (Val a) = (a = 0)"
| "zero_or_NaN NaN = True"

definition zero_or_NaN_v :: "Vector3d \<Rightarrow> bool" where
  "zero_or_NaN_v v = (zero_or_NaN (x v) \<and> zero_or_NaN (y v) \<and> zero_or_NaN (z v))"

definition is_normalized :: "Quaterniond \<Rightarrow> bool" where
  "is_normalized q = (case norm_q q of Val n \<Rightarrow> \<bar>n - 1\<bar> \<le> 1 / 10 ^ 9 | NaN \<Rightarrow> False)"

text \<open>
  The fields of a descriptor are the tokens that the loop of \<open>splitString_\<close> extracts with
  \<open>getline\<close>. \<open>stod_all\<close> converts the coordinate fields in order and stops at the first
  one that \<open>std::stod\<close> rejects. \<open>descriptor_of stod str ident ds\<close>: the descriptor has a
  first field \<open>ident\<close>, and \<open>std::stod\<close> accepts all its other fields, reading the numbers
  \<open>ds\<close>.
\<close>

function tokens :: "string \<Rightarrow> char \<Rightarrow> string list" where
  "tokens ss delimiter =
     (case getline ss delimiter of
        None \<Rightarrow> []
      | Some (token, ss') \<Rightarrow> token # tokens ss' delimiter)"
  by pat_completeness auto
termination
proof (relation "measure (\<lambda>(ss, delimiter). length ss)")
qed (auto simp: less_Suc_eq_le elim!: getline.elims
       intro: le_trans [OF diff_le_self length_dropWhile_le])

fun stod_all :: "(string \<Rightarrow> error + double) \<Rightarrow> string list \<Rightarrow> error + double list" where
  "stod_all stod [] = Inr []"
| "stod_all stod (t # ts) =
     (case stod t of
        Inl e \<Rightarrow> Inl e
      | Inr d \<Rightarrow> (case stod_all stod ts of Inl e \<Rightarrow> Inl e | Inr ds \<Rightarrow> Inr (d # ds)))"

definition descriptor_of ::
  "(string \<Rightarrow> error + double) \<Rightarrow> string \<Rightarrow> string \<Rightarrow> double list \<Rightarrow> bool" where
  "descriptor_of stod str ident ds =
     (case tokens str (CHR '','') of
        [] \<Rightarrow> False
      | t # ts \<Rightarrow> t = ident \<and> stod_all stod ts = Inr ds)"

text \<open>
  The record that \<open>parseROI_\<close> builds from an identifier and the numbers read, in the
  state \<open>st\<close>.
\<close>

definition roi_of :: "Subtask \<Rightarrow> string \<Rightarrow> double list \<Rightarrow> ROI" where
  "roi_of st ident ds =
     \<lparr>id_roi = ident,
      posStart = Vector3d (ds ! 0) (ds ! 1) (ds ! 2),
      posEnd = Vector3d (ds ! 3) (ds ! 4) (ds ! 5),
      quat = rotateVectorInPlan
               (Vector3d (ds ! 0) (ds ! 1) (ds ! 2), Vector3d (ds ! 3) (ds ! 4) (ds ! 5),
                robotPos st)
               (refVector st) theta_default\<rparr>"

text \<open>
  Messages delivered one after the other to the callback, as long as it returns; and
  \<open>n\<close> successive calls of \<open>getROI\<close>, with the records they return.
\<close>

fun cbkROI_all :: "(string \<Rightarrow> error + double) \<Rightarrow> Subtask \<Rightarrow> string list \<Rightarrow> outcome" where
  "cbkROI_all stod st [] = Returned st"
| "cbkROI_all stod st (msg # msgs) =
     (case cbkROI stod st msg of
        Returned st' \<Rightarrow> cbkROI_all stod st' msgs
      | Threw e st' \<Rightarrow> Threw e st'
      | UndefinedBehaviour \<Rightarrow> UndefinedBehaviour)"

fun getROI_n :: "nat \<Rightarrow> Subtask \<Rightarrow> ROI list \<times> Subtask" where
  "getROI_n 0 st = ([], st)"
| "getROI_n (Suc n) st =
     (case getROI st of (roi, st') \<Rightarrow>
        (case getROI_n n st' of (rois, st'') \<Rightarrow> (roi # rois, st'')))"

text \<open>
  For the examples: a stand-in for \<open>std::stod\<close> that reads a non-empty string of decimal
  digits as \<open>std::stod\<close> does and throws \<open>std::invalid_argument\<close> on every other string (the
  examples apply it to digit strings and to the string \<open>x\<close>, which \<open>std::stod\<close> rejects
  too); and a \<open>Subtask\<close> whose queue is empty. \<open>robotPos_\<close> and \<open>refVector_\<close> get their values
  in \<open>Subtask.h\<close>; the ones here are examples.
\<close>

definition digit :: "char \<Rightarrow> nat option" where
  "digit c = map_of [(CHR ''0'', 0), (CHR ''1'', 1), (CHR ''2'', 2), (CHR ''3'', 3),
     (CHR ''4'', 4), (CHR ''5'', 5), (CHR ''6'', 6), (CHR ''7'', 7), (CHR ''8'', 8),
     (CHR ''9'', 9)] c"

fun digits_value :: "nat \<Rightarrow> string \<Rightarrow> nat option" where
  "digits_value n [] = Some n"
| "digits_value n (c # cs) =
     (case digit c of None \<Rightarrow> None | Some k \<Rightarrow> digits_value (10 * n + k) cs)"

definition stod_digits :: "string \<Rightarrow> error + double" where
  "stod_digits s =
     (if s = [] then Inl invalid_argument
      else case digits_value 0 s of
             None \<Rightarrow> Inl invalid_argument
           | Some n \<Rightarrow> Inr (Val (real n)))"

definition example_subtask :: Subtask where
  "example_subtask = \<lparr>dequeROI = [], robotPos = Vector3d (Val 0) (Val 0) (Val 0),
     refVector = Vector3d (Val 1) (Val 0) (Val 0), rosout = []\<rparr>"

section \<open>The solver on degenerate inputs\<close>

lemmas double_ops = dadd_def dsub_def dmul_def dcos_def dsin_def
lemmas vector_ops = vsub_def vadd_def vscale_def vdivide_def cross_def dot_def squaredNorm_def norm_v_def

text \<open>
  Values that are 0 or \<open>NaN\<close> stay so through the products, sums and square roots of the
  solver, and their quotient is \<open>NaN\<close>. When the first two points coincide, the edge vector
  is made of such values, and so is the rotated edge vector; when the reference vector is
  zero, the dot product and the product of the norms are such values. In both cases the
  argument of \<open>acos\<close> is \<open>NaN\<close>, and so are the four components of the quaternion.
\<close>

lemma zn_dmul_left: "zero_or_NaN a \<Longrightarrow> zero_or_NaN (dmul a b)"
  by (cases a; cases b) (simp_all add: dmul_def)

lemma zn_dmul_right: "zero_or_NaN b \<Longrightarrow> zero_or_NaN (dmul a b)"
  by (cases a; cases b) (simp_all add: dmul_def)

lemma zn_dadd: "zero_or_NaN a \<Longrightarrow> zero_or_NaN b \<Longrightarrow> zero_or_NaN (dadd a b)"
  by (cases a; cases b) (simp_all add: dadd_def)

lemma zn_dsub: "zero_or_NaN a \<Longrightarrow> zero_or_NaN b \<Longrightarrow> zero_or_NaN (dsub a b)"
  by (cases a; cases b) (simp_all add: dsub_def)

lemma zn_dsub_self: "zero_or_NaN (dsub a a)"
  by (cases a) (simp_all add: dsub_def)

lemma zn_dsqrt: "zero_or_NaN a \<Longrightarrow> zero_or_NaN (dsqrt a)"
  by (cases a) simp_all

lemma zn_not_greater: "zero_or_NaN a \<Longrightarrow> \<not> dgreater a (Val 0)"
  by (cases a) simp_all

lemma zn_ddiv: "zero_or_NaN a \<Longrightarrow> zero_or_NaN b \<Longrightarrow> ddiv a b = NaN"
  by (cases a; cases b) simp_all

lemmas zn_intros = zn_dmul_left zn_dmul_right zn_dadd zn_dsub zn_dsub_self zn_dsqrt

lemma znv_vsub_self: "zero_or_NaN_v (vsub p p)"
  by (simp add: zero_or_NaN_v_def vsub_def zn_dsub_self)

lemma znv_cross_left: "zero_or_NaN_v a \<Longrightarrow> zero_or_NaN_v (cross a b)"
  by (simp add: zero_or_NaN_v_def cross_def zn_intros)

lemma znv_cross_right: "zero_or_NaN_v b \<Longrightarrow> zero_or_NaN_v (cross a b)"
  by (simp add: zero_or_NaN_v_def cross_def zn_intros)

lemma znv_vadd: "zero_or_NaN_v a \<Longrightarrow> zero_or_NaN_v b \<Longrightarrow> zero_or_NaN_v (vadd a b)"
  by (simp add: zero_or_NaN_v_def vadd_def zn_intros)

lemma znv_vscale: "zero_or_NaN_v a \<Longrightarrow> zero_or_NaN_v (vscale s a)"
  by (simp add: zero_or_NaN_v_def vscale_def zn_intros)

lemma zn_dot_left: "zero_or_NaN_v a \<Longrightarrow> zero_or_NaN (dot a b)"
  by (simp add: zero_or_NaN_v_def dot_def zn_intros)

lemma zn_dot_right: "zero_or_NaN_v b \<Longrightarrow> zero_or_NaN (dot a b)"
  by (simp add: zero_or_NaN_v_def dot_def zn_intros)

lemma zn_norm_v: "zero_or_NaN_v a \<Longrightarrow> zero_or_NaN (norm_v a)"
  by (simp add: norm_v_def squaredNorm_def zn_dot_left zn_dsqrt)

lemma znv_transformVector: "zero_or_NaN_v v \<Longrightarrow> zero_or_NaN_v (transformVector q v)"
  by (simp add: transformVector_def Let_def znv_vadd znv_vscale znv_cross_right)

lemma znv_rotatedVectPlan: "zero_or_NaN_v (rotatedVectPlan (p, p, p2) theta)"
  by (simp add: rotatedVectPlan_def Let_def znv_transformVector znv_vsub_self)

lemma NaN_angle:
  assumes "zero_or_NaN_v ref \<or> zero_or_NaN_v rot"
  shows "dacos (ddiv (dot ref rot) (dmul (norm_v ref) (norm_v rot))) = NaN"
proof -
  have "zero_or_NaN (dot ref rot)"
    using assms zn_dot_left zn_dot_right by blast
  moreover have "zero_or_NaN (dmul (norm_v ref) (norm_v rot))"
    using assms zn_norm_v zn_dmul_left zn_dmul_right by blast
  ultimately show ?thesis
    by (simp add: zn_ddiv)
qed

lemma dmul_NaN: "dmul a NaN = NaN"
  by (cases a) (simp_all add: dmul_def)

lemma rotateVectorInPlan_NaN_angle:
  assumes "zero_or_NaN_v ref \<or> zero_or_NaN_v (rotatedVectPlan pts theta)"
  shows "rotateVectorInPlan pts ref theta = Quaterniond NaN (Vector3d NaN NaN NaN)"
  by (simp add: rotateVectorInPlan_def Let_def NaN_angle [OF assms] dcos_def dsin_def dmul_NaN)

lemma not_normalized_NaN: "\<not> is_normalized (Quaterniond NaN (Vector3d NaN NaN NaN))"
  by (simp add: is_normalized_def norm_q_def dmul_def dadd_def)

lemma rotateVectorInPlan_degenerate:
  assumes "p0 = p1 \<or> ref = Vector3d (Val 0) (Val 0) (Val 0)"
  shows "rotateVectorInPlan (p0, p1, p2) ref theta = Quaterniond NaN (Vector3d NaN NaN NaN)"
proof (rule rotateVectorInPlan_NaN_angle)
  from assms show "zero_or_NaN_v ref \<or> zero_or_NaN_v (rotatedVectPlan (p0, p1, p2) theta)"
  proof
    assume "p0 = p1"
    then show ?thesis by (simp add: znv_rotatedVectPlan)
  next
    assume "ref = Vector3d (Val 0) (Val 0) (Val 0)"
    then show ?thesis by (simp add: zero_or_NaN_v_def)
  qed
qed

text \<open>
  An input of the other degenerate kind: the reference vector is anti-parallel to the
  rotated edge vector. The axis is the zero vector and the angle is \<open>\<pi>\<close>; the solver returns
  a quaternion that is not normalized.
\<close>

lemma rotateVectorInPlan_antiparallel:
  "\<not> is_normalized (rotateVectorInPlan (Vector3d (Val 0) (Val 0) (Val 0),
       Vector3d (Val 0) (Val 0) (Val 1), Vector3d (Val 0) (Val 1) (Val 0))
       (Vector3d (Val 0) (Val 0) (Val 1)) (Val 0))"
proof -
  let ?pts = "(Vector3d (Val 0) (Val 0) (Val 0), Vector3d (Val 0) (Val 0) (Val 1),
       Vector3d (Val 0) (Val 1) (Val 0))"
  have r: "rotatedVectPlan ?pts (Val 0) = Vector3d (Val 0) (Val 0) (Val (- 1))"
    by (simp add: rotatedVectPlan_def normalized_def transformVector_def vector_ops double_ops Let_def)
  have "rotateVectorInPlan ?pts (Vector3d (Val 0) (Val 0) (Val 1)) (Val 0)
      = Quaterniond (Val 0) (Vector3d (Val 0) (Val 0) (Val 0))"
    by (simp add: rotateVectorInPlan_def r normalized_def vector_ops double_ops Let_def)
  then show ?thesis
    by (simp add: is_normalized_def norm_q_def vector_ops double_ops)
qed

section \<open>Parsing a descriptor\<close>

lemma tokens_Nil: "tokens [] d = []"
  by simp

lemma tokens_Cons: "tokens (c # cs) d =
   takeWhile (\<lambda>a. a \<noteq> d) (c # cs) # tokens (drop 1 (dropWhile (\<lambda>a. a \<noteq> d) (c # cs))) d"
  by (subst tokens.simps) (simp only: getline.simps option.case prod.case)

declare tokens.simps [simp del]

lemma splitString_loop_Nil: "splitString_loop stod [] d taken ident ds = Inr (ident, ds)"
  by (subst splitString_loop.simps) simp

lemma splitString_loop_Cons:
  "splitString_loop stod (c # cs) d taken ident ds =
     (if \<not> taken
      then splitString_loop stod (drop 1 (dropWhile (\<lambda>a. a \<noteq> d) (c # cs))) d True
             (takeWhile (\<lambda>a. a \<noteq> d) (c # cs)) ds
      else (case stod (takeWhile (\<lambda>a. a \<noteq> d) (c # cs)) of
              Inl e \<Rightarrow> Inl e
            | Inr v \<Rightarrow> splitString_loop stod (drop 1 (dropWhile (\<lambda>a. a \<noteq> d) (c # cs))) d taken
                        ident (ds @ [v])))"
  by (subst splitString_loop.simps) (simp only: getline.simps option.case prod.case)

declare splitString_loop.simps [simp del]

lemma rest_shorter: "length (drop 1 (dropWhile (\<lambda>a. a \<noteq> d) (c # cs))) < length (c # cs)"
  by (auto simp: less_Suc_eq_le intro: le_trans [OF diff_le_self length_dropWhile_le])

lemma splitString_loop_taken:
  "splitString_loop stod ss d True ident ds =
     (case stod_all stod (tokens ss d) of Inl e \<Rightarrow> Inl e | Inr ds' \<Rightarrow> Inr (ident, ds @ ds'))"
proof (induction ss arbitrary: ds rule: length_induct)
  case (1 ss)
  show ?case
  proof (cases ss)
    case Nil
    then show ?thesis by (simp add: tokens_Nil splitString_loop_Nil)
  next
    case (Cons c cs)
    let ?rest = "drop 1 (dropWhile (\<lambda>a. a \<noteq> d) (c # cs))"
    have "length ?rest < length ss"
      unfolding Cons by (rule rest_shorter)
    then have IH: "\<And>ds. splitString_loop stod ?rest d True ident ds =
       (case stod_all stod (tokens ?rest d) of Inl e \<Rightarrow> Inl e | Inr ds' \<Rightarrow> Inr (ident, ds @ ds'))"
      using 1 by blast
    show ?thesis
      unfolding Cons splitString_loop_Cons [of _ c] tokens_Cons [of c]
      by (simp only: IH stod_all.simps if_True not_True_eq_False if_False split: sum.splits) simp
  qed
qed

lemma splitString_tokens:
  "splitString stod str d ident ds =
     (case tokens str d of
        [] \<Rightarrow> Inr (ident, ds)
      | t # ts \<Rightarrow> (case stod_all stod ts of Inl e \<Rightarrow> Inl e | Inr ds' \<Rightarrow> Inr (t, ds @ ds')))"
proof (cases str)
  case Nil
  then show ?thesis by (simp add: splitString_def tokens_Nil splitString_loop_Nil)
next
  case (Cons c cs)
  show ?thesis
    unfolding Cons splitString_def splitString_loop_Cons [of _ c] tokens_Cons [of c]
    by (simp only: splitString_loop_taken list.case if_True not_False_eq_True)
qed


lemma isIdStored_loop_iff: "isIdStored_loop rois ident \<longleftrightarrow> ident \<in> set (map id_roi rois)"
  by (induction rois) auto

lemma isIdStored_iff: "isIdStored st ident \<longleftrightarrow> ident \<in> id_roi ` set (dequeROI st)"
  by (simp add: isIdStored_def isIdStored_loop_iff)

lemma parseROI_descriptor:
  assumes "descriptor_of stod str ident ds"
  shows "parseROI stod st str =
    (let st1 = (if length ds \<noteq> 7
                then st\<lparr>rosout := rosout st @ [ROS_ERROR_size str 7 (length ds)]\<rparr> else st)
     in if \<not> isIdStored st ident then
          if length ds < 6 then UndefinedBehaviour
          else Returned (st1\<lparr>dequeROI := dequeROI st @ [roi_of st ident ds],
                            rosout := rosout st1 @ [ROS_INFO_registered ident]\<rparr>)
        else Returned (st1\<lparr>rosout := rosout st1 @ [ROS_INFO_received ident]\<rparr>))"
proof -
  from assms obtain ts where t: "tokens str (CHR '','') = ident # ts" "stod_all stod ts = Inr ds"
    by (auto simp: descriptor_of_def split: list.splits)
  have s: "splitString stod str (CHR '','') [] [] = Inr (ident, ds)"
    by (simp add: splitString_tokens t)
  show ?thesis
    by (simp add: parseROI_def s Let_def isIdStored_iff roi_of_def)
qed

lemma parseROI_new:
  assumes "descriptor_of stod str ident ds" "length ds = 6" "\<not> isIdStored st ident"
  shows "parseROI stod st str =
     Returned (st\<lparr>dequeROI := dequeROI st @ [roi_of st ident ds],
                  rosout := rosout st @ [ROS_ERROR_size str 7 6, ROS_INFO_registered ident]\<rparr>)"
  using assms by (simp add: parseROI_descriptor)

lemma parseROI_stored:
  assumes "descriptor_of stod str ident ds" "length ds = 6" "isIdStored st ident"
  shows "parseROI stod st str =
     Returned (st\<lparr>rosout := rosout st @ [ROS_ERROR_size str 7 6, ROS_INFO_received ident]\<rparr>)"
  using assms by (simp add: parseROI_descriptor)

lemma stod_all_first_rejected:
  assumes "\<forall>u\<in>set pre. \<exists>d. stod u = Inr d" and "stod t = Inl e"
  shows "stod_all stod (pre @ t # post) = Inl e"
  using assms by (induction pre) auto

lemma parseROI_throws:
  assumes "tokens str (CHR '','') = ident # ts" "stod_all stod ts = Inl e"
  shows "parseROI stod st str = Threw e st"
  by (simp add: parseROI_def splitString_tokens assms)

section \<open>The queue: lemmas\<close>

lemma roi_of_cong:
  "robotPos st' = robotPos st \<Longrightarrow> refVector st' = refVector st \<Longrightarrow> roi_of st' = roi_of st"
  by (intro ext) (simp add: roi_of_def)

lemma id_roi_roi_of: "id_roi (roi_of st ident ds) = ident"
  by (simp add: roi_of_def)

lemma count_stored_id:
  assumes "distinct (map id_roi rois)" "ident \<in> id_roi ` set rois"
  shows "length (filter (\<lambda>r. id_roi r = ident) rois) = 1"
  using assms
proof (induction rois)
  case Nil
  then show ?case by simp
next
  case (Cons r rois)
  show ?case
  proof (cases "id_roi r = ident")
    case True
    from Cons.prems(1) have "id_roi r \<notin> id_roi ` set rois" by simp
    with True have "\<forall>x\<in>set rois. id_roi x \<noteq> ident" by blast
    then have "filter (\<lambda>r. id_roi r = ident) rois = []"
      by (simp add: filter_empty_conv)
    with True show ?thesis by simp
  next
    case False
    with Cons show ?thesis by auto
  qed
qed

lemma getROI_n_take:
  "k \<le> length (dequeROI st) \<Longrightarrow>
     getROI_n k st = (take k (dequeROI st), st\<lparr>dequeROI := drop k (dequeROI st)\<rparr>)"
proof (induction k arbitrary: st)
  case 0
  then show ?case by simp
next
  case (Suc k)
  then obtain r rs where q: "dequeROI st = r # rs"
    by (cases "dequeROI st") auto
  with Suc.prems have "k \<le> length (dequeROI (st\<lparr>dequeROI := rs\<rparr>))" by simp
  from Suc.IH [OF this] show ?case
    by (simp add: getROI_def empty_def q)
qed

lemma cbkROI_all_new:
  assumes "list_all2 (\<lambda>msg (ident, ds). descriptor_of stod msg ident ds \<and> length ds = 6) msgs ps"
    and "distinct (map fst ps)" and "\<forall>p\<in>set ps. \<not> isIdStored st (fst p)"
  shows "\<exists>st'. cbkROI_all stod st msgs = Returned st' \<and>
           dequeROI st' = dequeROI st @ map (\<lambda>(ident, ds). roi_of st ident ds) ps \<and>
           robotPos st' = robotPos st \<and> refVector st' = refVector st"
  using assms
proof (induction msgs ps arbitrary: st rule: list_all2_induct)
  case Nil
  then show ?case by simp
next
  case (Cons msg msgs p ps)
  obtain ident ds where p: "p = (ident, ds)" by (cases p)
  from Cons.hyps(1) p have d: "descriptor_of stod msg ident ds" "length ds = 6" by simp_all
  from Cons.prems(2) p have new: "\<not> isIdStored st ident" by simp
  define st1 where "st1 = st\<lparr>dequeROI := dequeROI st @ [roi_of st ident ds],
      rosout := rosout st @ [ROS_ERROR_size msg 7 6, ROS_INFO_registered ident]\<rparr>"
  have step: "cbkROI stod st msg = Returned st1"
    unfolding cbkROI_def st1_def using d new by (rule parseROI_new)
  have same: "robotPos st1 = robotPos st" "refVector st1 = refVector st"
    by (simp_all add: st1_def)
  have "\<forall>q\<in>set ps. \<not> isIdStored st1 (fst q)"
    using Cons.prems p by (auto simp: isIdStored_iff st1_def id_roi_roi_of)
  moreover have "distinct (map fst ps)" using Cons.prems(1) by simp
  ultimately obtain st' where st': "cbkROI_all stod st1 msgs = Returned st'"
      "dequeROI st' = dequeROI st1 @ map (\<lambda>(ident, ds). roi_of st1 ident ds) ps"
      "robotPos st' = robotPos st1" "refVector st' = refVector st1"
    using Cons.IH [of st1] by blast
  have "roi_of st1 = roi_of st" using same by (rule roi_of_cong)
  with st' step same show ?case
    by (simp add: p st1_def)
qed

text \<open>The descriptors of the examples.\<close>

lemmas example_simps = tokens_Nil tokens_Cons stod_digits_def digit_def descriptor_of_def

lemma ex_d1: "descriptor_of stod_digits ''a,1,2,3,4,5,6'' ''a''
    [Val 1, Val 2, Val 3, Val 4, Val 5, Val 6]"
  by (simp add: example_simps)

lemma ex_d2: "descriptor_of stod_digits ''a,7,7,7,0,0,0'' ''a''
    [Val 7, Val 7, Val 7, Val 0, Val 0, Val 0]"
  by (simp add: example_simps)

lemma ex_d3: "descriptor_of stod_digits ''b,0,1,0,2,0,3'' ''b''
    [Val 0, Val 1, Val 0, Val 2, Val 0, Val 3]"
  by (simp add: example_simps)

section \<open>The solver: claims\<close>

text \<open>
  C1, as the code has it: the solver has no failure path and no guard; it returns a
  quaternion for every input. Whenever the first two points coincide (the edge vector
  has length zero) or the reference vector is the zero vector, whatever the other
  arguments, the four components of the quaternion returned are \<open>NaN\<close>, and the quaternion
  is not normalized.
\<close>

theorem rotateVectorInPlan_degenerate_NaN:
  assumes "p0 = p1 \<or> ref = Vector3d (Val 0) (Val 0) (Val 0)"
  shows "rotateVectorInPlan (p0, p1, p2) ref theta = Quaterniond NaN (Vector3d NaN NaN NaN) \<and>
         \<not> is_normalized (rotateVectorInPlan (p0, p1, p2) ref theta)"
  using rotateVectorInPlan_degenerate [OF assms] by (simp add: not_normalized_NaN)

text \<open>
  C1 as amended, at two coinciding points with \<open>theta = 1\<close>, and at the zero reference
  vector with the triple of the spec's example.
\<close>

theorem rotateVectorInPlan_degenerate_NaN_witness:
  "rotateVectorInPlan (Vector3d (Val 1) (Val 2) (Val 3), Vector3d (Val 1) (Val 2) (Val 3),
       Vector3d (Val 0) (Val 0) (Val 0)) (Vector3d (Val 1) (Val 0) (Val 0)) (Val 1)
     = Quaterniond NaN (Vector3d NaN NaN NaN) \<and>
   rotateVectorInPlan (Vector3d (Val 0) (Val 0) (Val 0), Vector3d (Val 1) (Val 0) (Val 0),
       Vector3d (Val 0) (Val 1) (Val 0)) (Vector3d (Val 0) (Val 0) (Val 0)) (Val 0)
     = Quaterniond NaN (Vector3d NaN NaN NaN)"
  using rotateVectorInPlan_degenerate_NaN
          [of "Vector3d (Val 1) (Val 2) (Val 3)" "Vector3d (Val 1) (Val 2) (Val 3)"
              "Vector3d (Val 1) (Val 0) (Val 0)" "Vector3d (Val 0) (Val 0) (Val 0)" "Val 1"]
        rotateVectorInPlan_degenerate_NaN
          [of "Vector3d (Val 0) (Val 0) (Val 0)" "Vector3d (Val 1) (Val 0) (Val 0)"
              "Vector3d (Val 0) (Val 0) (Val 0)" "Vector3d (Val 0) (Val 1) (Val 0)" "Val 0"]
  by simp

text \<open>
  C1 as stated fails when the first two points coincide: the edge vector is zero, the
  argument of \<open>acos\<close> is \<open>0/0\<close>, and the solver returns, without failing, a quaternion
  whose four components are \<open>NaN\<close>.
\<close>

theorem rotateVectorInPlan_coincident_NaN:
  "rotateVectorInPlan (Vector3d (Val 0) (Val 0) (Val 0), Vector3d (Val 0) (Val 0) (Val 0),
       Vector3d (Val 0) (Val 1) (Val 0)) (Vector3d (Val 0) (Val 0) (Val 1)) (Val 0)
     = Quaterniond NaN (Vector3d NaN NaN NaN) \<and>
   \<not> is_normalized (rotateVectorInPlan (Vector3d (Val 0) (Val 0) (Val 0),
       Vector3d (Val 0) (Val 0) (Val 0), Vector3d (Val 0) (Val 1) (Val 0))
       (Vector3d (Val 0) (Val 0) (Val 1)) (Val 0))"
proof -
  let ?pts = "(Vector3d (Val 0) (Val 0) (Val 0), Vector3d (Val 0) (Val 0) (Val 0),
       Vector3d (Val 0) (Val 1) (Val 0))"
  have r: "rotatedVectPlan ?pts (Val 0) = Vector3d (Val 0) (Val 0) (Val 0)"
    by (simp add: rotatedVectPlan_def normalized_def transformVector_def vector_ops double_ops Let_def)
  have q: "rotateVectorInPlan ?pts (Vector3d (Val 0) (Val 0) (Val 1)) (Val 0) =
      Quaterniond NaN (Vector3d NaN NaN NaN)"
    by (simp add: rotateVectorInPlan_def r normalized_def vector_ops double_ops Let_def)
  show ?thesis unfolding q
    by (simp add: is_normalized_def norm_q_def vector_ops double_ops)
qed

text \<open>
  C7: for \<open>P0 = (0,0,0)\<close>, \<open>P1 = (1,0,0)\<close>, \<open>P2 = (0,1,0)\<close>, \<open>refVector = (0,0,1)\<close> and
  \<open>theta = 0\<close>, the rotated edge vector is \<open>(-1,0,0)\<close>, and the quaternion returned by the
  solver, applied to \<open>refVector\<close>, gives \<open>(-1,0,0)\<close> (in exact arithmetic).
\<close>

theorem rotateVectorInPlan_aligns_example:
  "rotatedVectPlan (Vector3d (Val 0) (Val 0) (Val 0), Vector3d (Val 1) (Val 0) (Val 0),
       Vector3d (Val 0) (Val 1) (Val 0)) (Val 0) = Vector3d (Val (- 1)) (Val 0) (Val 0) \<and>
   transformVector
     (rotateVectorInPlan (Vector3d (Val 0) (Val 0) (Val 0), Vector3d (Val 1) (Val 0) (Val 0),
        Vector3d (Val 0) (Val 1) (Val 0)) (Vector3d (Val 0) (Val 0) (Val 1)) (Val 0))
     (Vector3d (Val 0) (Val 0) (Val 1)) = Vector3d (Val (- 1)) (Val 0) (Val 0)"
proof -
  let ?pts = "(Vector3d (Val 0) (Val 0) (Val 0), Vector3d (Val 1) (Val 0) (Val 0),
       Vector3d (Val 0) (Val 1) (Val 0))"
  have r: "rotatedVectPlan ?pts (Val 0) = Vector3d (Val (- 1)) (Val 0) (Val 0)"
    by (simp add: rotatedVectPlan_def normalized_def transformVector_def vector_ops double_ops Let_def)
  have q: "rotateVectorInPlan ?pts (Vector3d (Val 0) (Val 0) (Val 1)) (Val 0) =
      Quaterniond (Val (cos (pi / 4))) (Vector3d (Val 0) (Val (- sin (pi / 4))) (Val 0))"
    by (simp add: rotateVectorInPlan_def r normalized_def vector_ops double_ops Let_def)
  have "transformVector (Quaterniond (Val (cos (pi / 4))) (Vector3d (Val 0) (Val (- sin (pi / 4))) (Val 0)))
     (Vector3d (Val 0) (Val 0) (Val 1)) = Vector3d (Val (- 1)) (Val 0) (Val 0)"
    by (simp add: transformVector_def vector_ops double_ops Let_def cos_45 sin_45)
  with r q show ?thesis by simp
qed

section \<open>The queue: claims\<close>

text \<open>
  C8: after \<open>clearROI\<close> the queue is empty, and \<open>getROI\<close> on an empty queue returns the
  default record and leaves the queue empty.
\<close>

theorem clearROI_getROI_empty:
  "empty (clearROI st) \<and> (empty st \<longrightarrow> getROI st = (ROI_default, st) \<and> empty (snd (getROI st)))"
  by (simp add: empty_def clearROI_def getROI_def)

text \<open>C8 at the example state, whose queue is empty.\<close>

theorem clearROI_getROI_empty_witness:
  "empty (clearROI example_subtask) \<and> empty example_subtask \<and>
   getROI example_subtask = (ROI_default, example_subtask)"
  using clearROI_getROI_empty [of example_subtask] by (simp add: empty_def example_subtask_def)

text \<open>
  C2: a descriptor with a field count other than 7 is reported and discarded, and one
  with 7 fields and a new identifier gives one new record. The code does not do the first
  part: the size test compares the number of coordinates (6 in a valid descriptor) with
  7, and nothing follows from it. Evaluated on three descriptors with the new identifier
  \<open>a\<close>: with 8 fields a record is stored and no error is reported; with the 7 valid fields
  the record is stored and the size error is reported; with 3 fields the code reads
  \<open>waypointsPos\<close> past its end.
\<close>

theorem cbkROI_field_count_not_enforced:
  "cbkROI stod_digits example_subtask ''a,1,2,3,4,5,6,7'' =
     Returned (example_subtask
       \<lparr>dequeROI := [roi_of example_subtask ''a''
                      [Val 1, Val 2, Val 3, Val 4, Val 5, Val 6, Val 7]],
        rosout := [ROS_INFO_registered ''a'']\<rparr>) \<and>
   cbkROI stod_digits example_subtask ''a,1,2,3,4,5,6'' =
     Returned (example_subtask
       \<lparr>dequeROI := [roi_of example_subtask ''a'' [Val 1, Val 2, Val 3, Val 4, Val 5, Val 6]],
        rosout := [ROS_ERROR_size ''a,1,2,3,4,5,6'' 7 6, ROS_INFO_registered ''a'']\<rparr>) \<and>
   cbkROI stod_digits example_subtask ''a,1,2'' = UndefinedBehaviour"
proof -
  have d8: "descriptor_of stod_digits ''a,1,2,3,4,5,6,7'' ''a''
         [Val 1, Val 2, Val 3, Val 4, Val 5, Val 6, Val 7]"
    by (simp add: example_simps)
  have d7: "descriptor_of stod_digits ''a,1,2,3,4,5,6'' ''a''
         [Val 1, Val 2, Val 3, Val 4, Val 5, Val 6]"
    by (simp add: example_simps)
  have d3: "descriptor_of stod_digits ''a,1,2'' ''a'' [Val 1, Val 2]"
    by (simp add: example_simps)
  have e: "\<not> isIdStored example_subtask ''a''" "dequeROI example_subtask = []"
    "rosout example_subtask = []"
    by (simp_all add: isIdStored_def example_subtask_def)
  show ?thesis
    by (simp add: cbkROI_def parseROI_descriptor [OF d8] parseROI_descriptor [OF d7]
        parseROI_descriptor [OF d3] e)
qed

text \<open>
  C3, as the code has it: when \<open>std::stod\<close> rejects a coordinate field of a descriptor, the
  exception of the first rejected field leaves the ingestion (\<open>parseROI_\<close> and \<open>cbkROI_\<close> do
  not catch it); the object is unchanged, so no record is created and nothing is
  reported.
\<close>

theorem cbkROI_stod_exception_escapes:
  assumes "tokens str (CHR '','') = ident # pre @ t # post"
    and "\<forall>u\<in>set pre. \<exists>d. stod u = Inr d"
    and "stod t = Inl e"
  shows "cbkROI stod st str = Threw e st"
proof -
  have "stod_all stod (pre @ t # post) = Inl e"
    using assms(2,3) by (rule stod_all_first_rejected)
  with assms(1) show ?thesis
    unfolding cbkROI_def by (rule parseROI_throws)
qed

text \<open>
  C3 as amended, at a descriptor whose second and fourth coordinates are rejected: the
  exception is that of the second.
\<close>

theorem cbkROI_stod_exception_escapes_witness:
  "tokens ''a,1,x,3,y,5,6'' (CHR '','') = ''a'' # [''1''] @ ''x'' # [''3'', ''y'', ''5'', ''6''] \<and>
   stod_digits ''1'' = Inr (Val 1) \<and>
   stod_digits ''x'' = Inl invalid_argument \<and>
   cbkROI stod_digits example_subtask ''a,1,x,3,y,5,6'' = Threw invalid_argument example_subtask"
proof -
  have t: "tokens ''a,1,x,3,y,5,6'' (CHR '','') = ''a'' # [''1''] @ ''x'' # [''3'', ''y'', ''5'', ''6'']"
    by (simp add: example_simps)
  have one: "stod_digits ''1'' = Inr (Val 1)"
    by (simp add: example_simps)
  have x: "stod_digits ''x'' = Inl invalid_argument"
    by (simp add: example_simps)
  have pre: "\<forall>u\<in>set [''1'']. \<exists>d. stod_digits u = Inr d"
    using one by simp
  from cbkROI_stod_exception_escapes [of "''a,1,x,3,y,5,6''" "''a''" "[''1'']" "''x''"
         "[''3'', ''y'', ''5'', ''6'']" stod_digits invalid_argument example_subtask, OF t pre x]
       t one x
  show ?thesis by simp
qed

text \<open>
  C3 as stated fails: the ingestion of a descriptor with the coordinate \<open>x\<close> does not
  return; \<open>std::invalid_argument\<close> escapes it.
\<close>

theorem cbkROI_non_numeric_throws:
  "cbkROI stod_digits example_subtask ''a,1,x,3,4,5,6'' = Threw invalid_argument example_subtask"
proof -
  have t: "tokens ''a,1,x,3,4,5,6'' (CHR '','') = ''a'' # [''1'', ''x'', ''3'', ''4'', ''5'', ''6'']"
    by (simp add: example_simps)
  have e: "stod_all stod_digits [''1'', ''x'', ''3'', ''4'', ''5'', ''6''] = Inl invalid_argument"
    by (simp add: example_simps)
  show ?thesis unfolding cbkROI_def using t e by (rule parseROI_throws)
qed

text \<open>
  C4: two descriptors, each with 7 fields whose coordinates are read, carry the same
  identifier. After the ingestion of both, the queue is the one left by the first
  ingestion: the second changes no record and adds none. The first ingestion adds its
  record if the identifier was not stored, and nothing otherwise. If the identifiers in
  the queue were distinct before, exactly one record carries the identifier afterwards.
\<close>

theorem cbkROI_same_id_twice:
  assumes "descriptor_of stod d1 ident ds1" "length ds1 = 6"
    and "descriptor_of stod d2 ident ds2" "length ds2 = 6"
  shows "\<exists>st1 st2. cbkROI stod st d1 = Returned st1 \<and> cbkROI stod st1 d2 = Returned st2 \<and>
           dequeROI st1 = (if isIdStored st ident then dequeROI st
                           else dequeROI st @ [roi_of st ident ds1]) \<and>
           dequeROI st2 = dequeROI st1 \<and>
           (distinct (map id_roi (dequeROI st)) \<longrightarrow>
              length (filter (\<lambda>r. id_roi r = ident) (dequeROI st2)) = 1)"
proof -
  have "\<exists>st1. cbkROI stod st d1 = Returned st1 \<and>
      dequeROI st1 = (if isIdStored st ident then dequeROI st
                      else dequeROI st @ [roi_of st ident ds1])"
    using assms(1,2) by (simp add: cbkROI_def parseROI_descriptor Let_def)
  then obtain st1 where 1: "cbkROI stod st d1 = Returned st1"
      "dequeROI st1 = (if isIdStored st ident then dequeROI st
                       else dequeROI st @ [roi_of st ident ds1])"
    by blast
  have stored: "isIdStored st1 ident"
    by (simp add: isIdStored_iff 1(2) id_roi_roi_of)
  have "\<exists>st2. cbkROI stod st1 d2 = Returned st2 \<and> dequeROI st2 = dequeROI st1"
    using assms(3,4) stored by (simp add: cbkROI_def parseROI_descriptor Let_def)
  then obtain st2 where 2: "cbkROI stod st1 d2 = Returned st2" "dequeROI st2 = dequeROI st1"
    by blast
  have "length (filter (\<lambda>r. id_roi r = ident) (dequeROI st2)) = 1"
    if "distinct (map id_roi (dequeROI st))"
  proof (rule count_stored_id)
    show "distinct (map id_roi (dequeROI st2))"
      using that by (auto simp: 2(2) 1(2) isIdStored_iff id_roi_roi_of)
    show "ident \<in> id_roi ` set (dequeROI st2)"
      using stored by (simp add: isIdStored_iff 2(2))
  qed
  with 1 2 show ?thesis by blast
qed

text \<open>
  C4 at two descriptors with the identifier \<open>a\<close> and different coordinates, from the empty
  queue: one record, that of the first descriptor.
\<close>

theorem cbkROI_same_id_twice_witness:
  "descriptor_of stod_digits ''a,1,2,3,4,5,6'' ''a'' [Val 1, Val 2, Val 3, Val 4, Val 5, Val 6] \<and>
   descriptor_of stod_digits ''a,7,7,7,0,0,0'' ''a'' [Val 7, Val 7, Val 7, Val 0, Val 0, Val 0] \<and>
   (\<exists>st1 st2. cbkROI stod_digits example_subtask ''a,1,2,3,4,5,6'' = Returned st1 \<and>
      cbkROI stod_digits st1 ''a,7,7,7,0,0,0'' = Returned st2 \<and>
      dequeROI st2 = [roi_of example_subtask ''a'' [Val 1, Val 2, Val 3, Val 4, Val 5, Val 6]])"
proof -
  have e: "\<not> isIdStored example_subtask ''a''" "dequeROI example_subtask = []"
    by (simp_all add: isIdStored_def example_subtask_def)
  from cbkROI_same_id_twice [OF ex_d1 _ ex_d2, of example_subtask] ex_d1 ex_d2 e
  show ?thesis by auto
qed

text \<open>
  C5: \<open>n\<close> descriptors, each with 7 fields whose coordinates are read, with distinct
  identifiers, are ingested into an empty queue. Then every ingestion returns; for every
  \<open>k \<le> n\<close>, \<open>k\<close> successive calls of \<open>getROI\<close> return the first \<open>k\<close> records in the
  order of ingestion and leave the other records in the queue; after \<open>n\<close> calls the queue
  is empty.
\<close>

theorem getROI_fifo:
  assumes "list_all2 (\<lambda>msg (ident, ds). descriptor_of stod msg ident ds \<and> length ds = 6) msgs ps"
    and "distinct (map fst ps)" and "dequeROI st = []"
  shows "\<exists>st'. cbkROI_all stod st msgs = Returned st' \<and>
           (\<forall>k\<le>length msgs. getROI_n k st' =
              (take k (map (\<lambda>(ident, ds). roi_of st ident ds) ps),
               st'\<lparr>dequeROI := drop k (map (\<lambda>(ident, ds). roi_of st ident ds) ps)\<rparr>)) \<and>
           empty (snd (getROI_n (length msgs) st'))"
proof -
  let ?rs = "map (\<lambda>(ident, ds). roi_of st ident ds) ps"
  have "\<forall>p\<in>set ps. \<not> isIdStored st (fst p)"
    using assms(3) by (simp add: isIdStored_iff)
  with assms(1,2) obtain st' where st': "cbkROI_all stod st msgs = Returned st'"
      "dequeROI st' = dequeROI st @ ?rs"
    using cbkROI_all_new [of stod msgs ps st] by blast
  then have q: "dequeROI st' = ?rs" using assms(3) by simp
  have len: "length msgs = length ?rs"
    using assms(1) by (simp add: list_all2_lengthD)
  have "getROI_n k st' = (take k ?rs, st'\<lparr>dequeROI := drop k ?rs\<rparr>)" if "k \<le> length msgs" for k
    using getROI_n_take [of k st'] that len q by simp
  moreover from this [of "length msgs"] have "empty (snd (getROI_n (length msgs) st'))"
    by (simp add: empty_def len)
  ultimately show ?thesis using st'(1) by blast
qed

text \<open>C5 at two descriptors with the identifiers \<open>a\<close> and \<open>b\<close>.\<close>

theorem getROI_fifo_witness:
  "list_all2 (\<lambda>msg (ident, ds). descriptor_of stod_digits msg ident ds \<and> length ds = 6)
     [''a,1,2,3,4,5,6'', ''b,0,1,0,2,0,3'']
     [(''a'', [Val 1, Val 2, Val 3, Val 4, Val 5, Val 6]),
      (''b'', [Val 0, Val 1, Val 0, Val 2, Val 0, Val 3])] \<and>
   (\<exists>st'. cbkROI_all stod_digits example_subtask [''a,1,2,3,4,5,6'', ''b,0,1,0,2,0,3''] = Returned st' \<and>
      getROI_n 2 st' =
        ([roi_of example_subtask ''a'' [Val 1, Val 2, Val 3, Val 4, Val 5, Val 6],
          roi_of example_subtask ''b'' [Val 0, Val 1, Val 0, Val 2, Val 0, Val 3]],
         st'\<lparr>dequeROI := []\<rparr>))"
proof -
  have h: "list_all2 (\<lambda>msg (ident, ds). descriptor_of stod_digits msg ident ds \<and> length ds = 6)
     [''a,1,2,3,4,5,6'', ''b,0,1,0,2,0,3'']
     [(''a'', [Val 1, Val 2, Val 3, Val 4, Val 5, Val 6]),
      (''b'', [Val 0, Val 1, Val 0, Val 2, Val 0, Val 3])]"
    using ex_d1 ex_d3 by simp
  have e: "dequeROI example_subtask = []"
    by (simp add: example_subtask_def)
  from getROI_fifo [OF h _ e] h show ?thesis
    by fastforce
qed




text \<open>
  C9, as the code has it: the identifier of a stored record is the first field of its
  descriptor, as it is. A descriptor whose coordinates are all read, at least six of
  them, and whose first field is not an identifier of the queue, is stored with its
  first field as identifier, whether that field is empty or not. An ingestion that
  returns leaves the queue as it was or appends one record, whose identifier is the
  first field; so if no queued record has an empty identifier and the first field is not
  empty, no queued record has an empty identifier afterwards.
\<close>

theorem cbkROI_id_is_first_field:
  assumes "tokens str (CHR '','') = ident # ts"
  shows "(stod_all stod ts = Inr ds \<and> 6 \<le> length ds \<and> \<not> isIdStored st ident \<longrightarrow>
            (\<exists>st''. cbkROI stod st str = Returned st'' \<and>
                    dequeROI st'' = dequeROI st @ [roi_of st ident ds] \<and>
                    id_roi (last (dequeROI st'')) = ident)) \<and>
         (cbkROI stod st str = Returned st' \<longrightarrow>
            (dequeROI st' = dequeROI st \<or>
             (\<exists>roi. dequeROI st' = dequeROI st @ [roi] \<and> id_roi roi = ident)) \<and>
            ((\<forall>r\<in>set (dequeROI st). id_roi r \<noteq> []) \<and> ident \<noteq> [] \<longrightarrow>
               (\<forall>r\<in>set (dequeROI st'). id_roi r \<noteq> [])))"
proof (intro conjI impI)
  assume a: "stod_all stod ts = Inr ds \<and> 6 \<le> length ds \<and> \<not> isIdStored st ident"
  with assms have d: "descriptor_of stod str ident ds"
    by (simp add: descriptor_of_def)
  from a show "\<exists>st''. cbkROI stod st str = Returned st'' \<and>
                    dequeROI st'' = dequeROI st @ [roi_of st ident ds] \<and>
                    id_roi (last (dequeROI st'')) = ident"
    by (simp add: cbkROI_def parseROI_descriptor [OF d] Let_def id_roi_roi_of)
next
  assume r: "cbkROI stod st str = Returned st'"
  obtain ds where ds: "stod_all stod ts = Inr ds"
  proof (cases "stod_all stod ts")
    case (Inl e)
    with assms r show ?thesis by (simp add: cbkROI_def parseROI_throws)
  next
    case (Inr ds)
    then show ?thesis by (rule that)
  qed
  with assms have d: "descriptor_of stod str ident ds"
    by (simp add: descriptor_of_def)
  from r have q: "dequeROI st' = dequeROI st \<or> dequeROI st' = dequeROI st @ [roi_of st ident ds]"
    by (auto simp: cbkROI_def parseROI_descriptor [OF d] Let_def split: if_splits)
  then show "dequeROI st' = dequeROI st \<or>
             (\<exists>roi. dequeROI st' = dequeROI st @ [roi] \<and> id_roi roi = ident)"
    by (auto simp: id_roi_roi_of)
  show "\<forall>r\<in>set (dequeROI st'). id_roi r \<noteq> []"
    if "(\<forall>r\<in>set (dequeROI st). id_roi r \<noteq> []) \<and> ident \<noteq> []"
    using q that by (auto simp: id_roi_roi_of)
qed

text \<open>C9 as amended, at the descriptor \<open>a,1,2,3,4,5,6\<close> and the example state.\<close>

theorem cbkROI_id_is_first_field_witness:
  "tokens ''a,1,2,3,4,5,6'' (CHR '','') = ''a'' # [''1'', ''2'', ''3'', ''4'', ''5'', ''6''] \<and>
   stod_all stod_digits [''1'', ''2'', ''3'', ''4'', ''5'', ''6''] =
     Inr [Val 1, Val 2, Val 3, Val 4, Val 5, Val 6] \<and>
   cbkROI stod_digits example_subtask ''a,1,2,3,4,5,6'' =
     Returned (example_subtask
       \<lparr>dequeROI := [roi_of example_subtask ''a'' [Val 1, Val 2, Val 3, Val 4, Val 5, Val 6]],
        rosout := [ROS_ERROR_size ''a,1,2,3,4,5,6'' 7 6, ROS_INFO_registered ''a'']\<rparr>) \<and>
   id_roi (roi_of example_subtask ''a'' [Val 1, Val 2, Val 3, Val 4, Val 5, Val 6]) \<noteq> []"
proof -
  have e: "\<not> isIdStored example_subtask ''a''" "dequeROI example_subtask = []"
    "rosout example_subtask = []"
    by (simp_all add: isIdStored_def example_subtask_def)
  have c: "cbkROI stod_digits example_subtask ''a,1,2,3,4,5,6'' =
     Returned (example_subtask
       \<lparr>dequeROI := [roi_of example_subtask ''a'' [Val 1, Val 2, Val 3, Val 4, Val 5, Val 6]],
        rosout := [ROS_ERROR_size ''a,1,2,3,4,5,6'' 7 6, ROS_INFO_registered ''a'']\<rparr>)"
    by (simp add: cbkROI_def parseROI_new [OF ex_d1 _ e(1)] e)
  have t: "tokens ''a,1,2,3,4,5,6'' (CHR '','') = ''a'' # [''1'', ''2'', ''3'', ''4'', ''5'', ''6'']"
    by (simp add: example_simps)
  have s: "stod_all stod_digits [''1'', ''2'', ''3'', ''4'', ''5'', ''6''] =
     Inr [Val 1, Val 2, Val 3, Val 4, Val 5, Val 6]"
    by (simp add: example_simps)
  from cbkROI_id_is_first_field [OF t, of stod_digits
         "[Val 1, Val 2, Val 3, Val 4, Val 5, Val 6]" example_subtask
         "example_subtask
           \<lparr>dequeROI := [roi_of example_subtask ''a'' [Val 1, Val 2, Val 3, Val 4, Val 5, Val 6]],
            rosout := [ROS_ERROR_size ''a,1,2,3,4,5,6'' 7 6, ROS_INFO_registered ''a'']\<rparr>"]
       c t s e
  show ?thesis by simp
qed

text \<open>
  C9 as stated fails: a descriptor whose first field is the empty string is stored with
  the empty identifier.
\<close>

theorem cbkROI_stores_empty_id:
  "cbkROI stod_digits example_subtask '',1,2,3,4,5,6'' =
     Returned (example_subtask
       \<lparr>dequeROI := [roi_of example_subtask [] [Val 1, Val 2, Val 3, Val 4, Val 5, Val 6]],
        rosout := [ROS_ERROR_size '',1,2,3,4,5,6'' 7 6, ROS_INFO_registered []]\<rparr>) \<and>
   id_roi (roi_of example_subtask [] [Val 1, Val 2, Val 3, Val 4, Val 5, Val 6]) = []"
proof -
  have d: "descriptor_of stod_digits '',1,2,3,4,5,6'' [] [Val 1, Val 2, Val 3, Val 4, Val 5, Val 6]"
    by (simp add: example_simps)
  have e: "\<not> isIdStored example_subtask []" "dequeROI example_subtask = []"
    "rosout example_subtask = []"
    by (simp_all add: isIdStored_def example_subtask_def)
  show ?thesis
    by (simp add: cbkROI_def parseROI_new [OF d _ e(1)] e id_roi_roi_of)
qed

text \<open>
  C10: two descriptors, each with 7 fields whose coordinates are read, carry the same
  identifier. From an empty queue, after the ingestion of the first and a call of
  \<open>getROI\<close> (which returns its record), the ingestion of the second stores the record of
  the second. The same holds after \<open>clearROI\<close> instead of \<open>getROI\<close>.
\<close>

theorem getROI_forgets_id:
  assumes "descriptor_of stod d1 ident ds1" "length ds1 = 6"
    and "descriptor_of stod d2 ident ds2" "length ds2 = 6"
    and "dequeROI st = []"
  shows "\<exists>st1 st2 st3. cbkROI stod st d1 = Returned st1 \<and>
           getROI st1 = (roi_of st ident ds1, st2) \<and>
           cbkROI stod st2 d2 = Returned st3 \<and>
           dequeROI st3 = [roi_of st ident ds2] \<and>
           (\<exists>st4. cbkROI stod (clearROI st1) d2 = Returned st4 \<and>
                  dequeROI st4 = [roi_of st ident ds2])"
proof -
  define st1 where "st1 = st\<lparr>dequeROI := dequeROI st @ [roi_of st ident ds1],
      rosout := rosout st @ [ROS_ERROR_size d1 7 6, ROS_INFO_registered ident]\<rparr>"
  define st2 where "st2 = st1\<lparr>dequeROI := []\<rparr>"
  have new: "\<not> isIdStored st ident" "\<not> isIdStored st2 ident"
    using assms(5) by (simp_all add: isIdStored_def st2_def)
  have 1: "cbkROI stod st d1 = Returned st1"
    unfolding cbkROI_def st1_def using assms(1,2) new(1) by (rule parseROI_new)
  have 2: "getROI st1 = (roi_of st ident ds1, st2)" "clearROI st1 = st2"
    using assms(5) by (simp_all add: getROI_def empty_def st1_def st2_def clearROI_def)
  have "roi_of st2 = roi_of st"
    by (rule roi_of_cong) (simp_all add: st2_def st1_def)
  then have 3: "\<exists>st3. cbkROI stod st2 d2 = Returned st3 \<and> dequeROI st3 = [roi_of st ident ds2]"
    using assms(3,4) new(2) by (simp add: cbkROI_def parseROI_new st2_def)
  with 1 2 show ?thesis by auto
qed

text \<open>C10 at two descriptors with the identifier \<open>a\<close>.\<close>

theorem getROI_forgets_id_witness:
  "descriptor_of stod_digits ''a,1,2,3,4,5,6'' ''a'' [Val 1, Val 2, Val 3, Val 4, Val 5, Val 6] \<and>
   descriptor_of stod_digits ''a,7,7,7,0,0,0'' ''a'' [Val 7, Val 7, Val 7, Val 0, Val 0, Val 0] \<and>
   (\<exists>st1 st2 st3. cbkROI stod_digits example_subtask ''a,1,2,3,4,5,6'' = Returned st1 \<and>
      getROI st1 = (roi_of example_subtask ''a'' [Val 1, Val 2, Val 3, Val 4, Val 5, Val 6], st2) \<and>
      cbkROI stod_digits st2 ''a,7,7,7,0,0,0'' = Returned st3 \<and>
      dequeROI st3 = [roi_of example_subtask ''a'' [Val 7, Val 7, Val 7, Val 0, Val 0, Val 0]])"
proof -
  have e: "dequeROI example_subtask = []"
    by (simp add: example_subtask_def)
  from getROI_forgets_id [OF ex_d1 _ ex_d2 _ e] ex_d1 ex_d2
  show ?thesis by auto
qed

end
